theory Spec2Isabelle
  imports Main
begin

section \<open>Strings and arrays of strings\<close>

text \<open>
  \<^verbatim>\<open>Array.prototype.join(sep)\<close> on an array of strings: the elements in index order
  with \<open>sep\<close> between neighbours, the empty string for the empty array.
\<close>

fun join :: "string \<Rightarrow> string list \<Rightarrow> string" where
  "join sep [] = []"
| "join sep [x] = x"
| "join sep (x # y # ys) = x @ sep @ join sep (y # ys)"

text \<open>
  Arrays are mutable objects that several references may share, so they live in a store.
  An address below \<open>next_addr\<close> is allocated; an array literal or a spread copy
  \<^verbatim>\<open>[...xs]\<close> takes the next free address.
\<close>

type_synonym addr = nat

record heap =
  arrays :: "addr \<Rightarrow> string list"
  next_addr :: addr

definition alloc :: "string list \<Rightarrow> heap \<Rightarrow> addr \<times> heap" where
  "alloc xs h =
     (next_addr h, h\<lparr>arrays := (arrays h)(next_addr h := xs), next_addr := Suc (next_addr h)\<rparr>)"

text \<open>\<^verbatim>\<open>a.push(x1, ..., xn)\<close>: the items are added at the end of the array, in place.\<close>

definition push :: "addr \<Rightarrow> string list \<Rightarrow> heap \<Rightarrow> heap" where
  "push a items h = h\<lparr>arrays := (arrays h)(a := arrays h a @ items)\<rparr>"

section \<open>The builder: \<^verbatim>\<open>src/param-builder.ts\<close>\<close>

text \<open>
  \<^verbatim>\<open>class ParamBuilder { public readonly modifiers: string[]; ... }\<close>: the only field is a
  reference to the array of tokens.
\<close>

record ParamBuilder =
  modifiers :: addr

text \<open>
  \<^verbatim>\<open>constructor(initialModifiers: string[] = [])\<close> stores the reference it is given (no copy);
  without an argument it stores a new empty array.
\<close>

definition new_ParamBuilder :: "addr option \<Rightarrow> heap \<Rightarrow> ParamBuilder \<times> heap" where
  "new_ParamBuilder initialModifiers h =
     (case initialModifiers of
        None \<Rightarrow> (let (a, h') = alloc [] h in (\<lparr>modifiers = a\<rparr>, h'))
      | Some a \<Rightarrow> (\<lparr>modifiers = a\<rparr>, h))"

text \<open>\<^verbatim>\<open>const pb = (): ParamBuilder => new ParamBuilder();\<close>\<close>

definition pb :: "heap \<Rightarrow> ParamBuilder \<times> heap" where
  "pb h = new_ParamBuilder None h"

text \<open>\<^verbatim>\<open>clone() { return new ParamBuilder([...this.modifiers]) }\<close>\<close>

definition clone :: "ParamBuilder \<Rightarrow> heap \<Rightarrow> ParamBuilder \<times> heap" where
  "clone this h =
     (let (a, h') = alloc (arrays h (modifiers this)) h in new_ParamBuilder (Some a) h')"

text \<open>
  The options of \<open>build\<close>. Every field may be absent at run time (\<^verbatim>\<open>build({})\<close>), so
  each is an option; \<open>None\<close> is \<^verbatim>\<open>undefined\<close>.
\<close>

record signature_options =
  key :: string
  salt :: string

record build_options =
  path :: "string option"
  baseUrl :: "string option"
  plain :: "bool option"
  signature :: "signature_options option"

text \<open>\<^verbatim>\<open>options ?? {}\<close>: an absent options object reads as one with every field absent.\<close>

definition or_empty :: "build_options option \<Rightarrow> build_options" where
  "or_empty options =
     (case options of
        None \<Rightarrow> \<lparr>path = None, baseUrl = None, plain = None, signature = None\<rparr>
      | Some opts \<Rightarrow> opts)"

text \<open>JavaScript truthiness of an optional string and of an optional boolean.\<close>

definition truthy_string :: "string option \<Rightarrow> bool" where
  "truthy_string s = (case s of None \<Rightarrow> False | Some v \<Rightarrow> v \<noteq> [])"

definition truthy_bool :: "bool option \<Rightarrow> bool" where
  "truthy_bool b = (case b of None \<Rightarrow> False | Some v \<Rightarrow> v)"

text \<open>
  \<open>build\<close>, statement by statement. \<open>encodeFilePath\<close> and \<open>generateSignature\<close> are
  imported from \<^verbatim>\<open>./utils\<close>, which is not part of the sources at hand: they are
  parameters. The result is the returned string and the store after the call (the copy
  \<open>mods\<close> stays behind in it).
\<close>

definition build ::
  "(string \<Rightarrow> string) \<Rightarrow> (string \<Rightarrow> string \<Rightarrow> string \<Rightarrow> string) \<Rightarrow>
   ParamBuilder \<Rightarrow> build_options option \<Rightarrow> heap \<Rightarrow> string \<times> heap" where
  "build encodeFilePath generateSignature this options h =
     (let opts = or_empty options in
      if \<not> truthy_string (path opts) then (join ''/'' (arrays h (modifiers this)), h)
      else
        (case path opts of
           None \<Rightarrow> (join ''/'' (arrays h (modifiers this)), h)
         | Some p \<Rightarrow>
            (let (mods, h1) = alloc (arrays h (modifiers this)) h;
                 h2 = (if truthy_string (Some p) \<and> truthy_bool (plain opts)
                       then push mods [''plain'', p] h1
                       else push mods [encodeFilePath p] h1);
                 res = join ''/'' (arrays h2 mods);
                 finalPath =
                   (case signature opts of
                      Some sg \<Rightarrow> generateSignature res (key sg) (salt sg) @ ''/'' @ res
                    | None \<Rightarrow> res)
             in (case baseUrl opts of
                   None \<Rightarrow> ''/'' @ finalPath
                 | Some b \<Rightarrow> if b \<noteq> [] then b @ ''/'' @ finalPath else ''/'' @ finalPath,
                 h2))))"

text \<open>
  The body shared by the twenty chain methods:
  \<^verbatim>\<open>this.modifiers.push(token); return this;\<close> where \<open>token\<close> is what the method's encoder
  returned.
\<close>

definition append_token :: "string \<Rightarrow> ParamBuilder \<Rightarrow> heap \<Rightarrow> ParamBuilder \<times> heap" where
  "append_token token this h = (this, push (modifiers this) [token] h)"

text \<open>
  The chain methods of the class, one constructor for each, named as in the source.
\<close>

datatype modifier_kind =
    AutoRotate | Background | Blur | CacheBuster | Crop | Dpr | Filename | Format
  | Gravity | MaxBytes | Pad | Preset | Quality | Resize | Rotate | Sharpen
  | StripColorProfile | StripMetadata | Trim | Watermark

text \<open>
  A chain method, for example
  \<^verbatim>\<open>blur(options) { this.modifiers.push(blur(options)); return this; }\<close>.
  The encoders (\<^verbatim>\<open>./transformers/*\<close>) are a parameter: \<open>encoder m options\<close> is the token
  that the encoder of method \<open>m\<close> returns for \<open>options\<close>.
\<close>

definition chain_method ::
  "(modifier_kind \<Rightarrow> 'o \<Rightarrow> string) \<Rightarrow> modifier_kind \<Rightarrow> 'o \<Rightarrow> ParamBuilder \<Rightarrow> heap \<Rightarrow> ParamBuilder \<times> heap" where
  "chain_method encoder m options this h = append_token (encoder m options) this h"

text \<open>A sequence of chain-method invocations, each on the object the one before returned.\<close>

fun chain_calls ::
  "(modifier_kind \<Rightarrow> 'o \<Rightarrow> string) \<Rightarrow> (modifier_kind \<times> 'o) list \<Rightarrow> ParamBuilder \<Rightarrow> heap \<Rightarrow> ParamBuilder \<times> heap" where
  "chain_calls encoder [] this h = (this, h)"
| "chain_calls encoder ((m, options) # calls) this h =
     (let (this', h') = chain_method encoder m options this h
      in chain_calls encoder calls this' h')"

subsection \<open>The static types of the handles\<close>

text \<open>
  Every chain method has the signature
  \<^verbatim>\<open>m<T extends ForwardType>(this: T, ...): Omit<T, K>\<close>.
  The static type of a handle is the class type with some chain methods omitted, so it is
  given by the set of chain methods it still has. \<open>omitted m\<close> is the key \<open>K\<close> that the
  declared return type of method \<open>m\<close> removes, read off the source method by method.
\<close>

fun omitted :: "modifier_kind \<Rightarrow> modifier_kind" where
  "omitted AutoRotate = AutoRotate"
| "omitted Background = Background"
| "omitted Blur = Blur"
| "omitted CacheBuster = CacheBuster"
| "omitted Crop = Crop"
| "omitted Dpr = Dpr"
| "omitted Filename = Dpr"
| "omitted Format = Format"
| "omitted Gravity = Gravity"
| "omitted MaxBytes = MaxBytes"
| "omitted Pad = Pad"
| "omitted Preset = Preset"
| "omitted Quality = Quality"
| "omitted Resize = Resize"
| "omitted Rotate = Rotate"
| "omitted Sharpen = Sharpen"
| "omitted StripColorProfile = StripColorProfile"
| "omitted StripMetadata = StripMetadata"
| "omitted Trim = Trim"
| "omitted Watermark = Watermark"

record handle =
  target :: ParamBuilder
  capabilities :: "modifier_kind set"

definition all_methods :: "modifier_kind set" where
  "all_methods =
     {AutoRotate, Background, Blur, CacheBuster, Crop, Dpr, Filename, Format, Gravity,
      MaxBytes, Pad, Preset, Quality, Resize, Rotate, Sharpen, StripColorProfile,
      StripMetadata, Trim, Watermark}"

text \<open>\<open>pb()\<close> has the full class type.\<close>

definition pb_handle :: "heap \<Rightarrow> handle \<times> heap" where
  "pb_handle h = (let (this, h') = pb h in (\<lparr>target = this, capabilities = all_methods\<rparr>, h'))"

text \<open>
  The call \<^verbatim>\<open>hnd.m(options)\<close> as the type checker and the run time see it: \<open>None\<close> when
  the type of \<open>hnd\<close> has no method \<open>m\<close> (the program is rejected), otherwise the method
  runs and the result has the narrowed type.
\<close>

definition invoke ::
  "(modifier_kind \<Rightarrow> 'o \<Rightarrow> string) \<Rightarrow> modifier_kind \<Rightarrow> 'o \<Rightarrow> handle \<Rightarrow> heap \<Rightarrow> (handle \<times> heap) option" where
  "invoke encoder m options hnd h =
     (if m \<in> capabilities hnd
      then (let (this', h') = chain_method encoder m options (target hnd) h
            in Some (\<lparr>target = this', capabilities = capabilities hnd - {omitted m}\<rparr>, h'))
      else None)"

text \<open>The fluent chain \<^verbatim>\<open>hnd.m1(o1).m2(o2)...\<close>.\<close>

fun invoke_all ::
  "(modifier_kind \<Rightarrow> 'o \<Rightarrow> string) \<Rightarrow> (modifier_kind \<times> 'o) list \<Rightarrow> handle \<Rightarrow> heap \<Rightarrow> (handle \<times> heap) option" where
  "invoke_all encoder [] hnd h = Some (hnd, h)"
| "invoke_all encoder ((m, options) # calls) hnd h =
     (case invoke encoder m options hnd h of
        None \<Rightarrow> None
      | Some (hnd', h') \<Rightarrow> invoke_all encoder calls hnd' h')"

section \<open>The encoders at hand: \<^verbatim>\<open>src/transformers/enlarge.ts\<close>\<close>

text \<open>
  The values an encoder hands to the stringifier: booleans, numbers, strings and absent
  values. Numbers are IEEE doubles in the source; the model leaves the number type \<open>'n\<close>
  and its decimal rendering open.
\<close>

datatype 'n primitive = PBool bool | PNum 'n | PStr string | PNull

text \<open>
  Modelled from the spec: the textual form of one value inside \<open>stringifyOptions\<close>, which
  is imported from \<^verbatim>\<open>../utils\<close> and \<^verbatim>\<open>../common\<close> and is not among the sources. Section 4.1:
  booleans render as 1/0, numbers in minimal decimal form (the parameter \<open>num\<close>), strings
  verbatim. The spec does not say how an absent value before a present one is rendered;
  it is rendered as the empty string here.
\<close>

fun render :: "('n \<Rightarrow> string) \<Rightarrow> 'n primitive \<Rightarrow> string" where
  "render num (PBool b) = (if b then ''1'' else ''0'')"
| "render num (PNum n) = num n"
| "render num (PStr s) = s"
| "render num PNull = []"

text \<open>
  Modelled from the spec: the test for an absent value (null or undefined) that the
  stringifier applies to the trailing values, missing from the sources with it.
\<close>

fun is_null :: "'n primitive \<Rightarrow> bool" where
  "is_null PNull = True"
| "is_null _ = False"

text \<open>
  Modelled from the spec: \<open>stringifyOptions\<close> (section 4.1, the generic option
  stringifier), missing from the sources. It renders the prefix, then for each value in
  order a colon followed by the value's textual form; a trailing run of absent values is
  dropped.
\<close>

definition stringifyOptions :: "('n \<Rightarrow> string) \<Rightarrow> string \<Rightarrow> 'n primitive list \<Rightarrow> string" where
  "stringifyOptions num prefix values =
     prefix @ concat (map (\<lambda>v. '':'' @ render num v) (rev (dropWhile is_null (rev values))))"

text \<open>\<^verbatim>\<open>const enlarge = (): string => stringifyOptions('el', [true]);\<close>\<close>

definition enlarge :: "('n \<Rightarrow> string) \<Rightarrow> string" where
  "enlarge num = stringifyOptions num ''el'' [PBool True]"

text \<open>
  \<^verbatim>\<open>const backgroundAlpha = (percentage: number): string =>
    stringifyOptions('bga', [percentage]);\<close>
\<close>

definition backgroundAlpha :: "('n \<Rightarrow> string) \<Rightarrow> 'n \<Rightarrow> string" where
  "backgroundAlpha num percentage = stringifyOptions num ''bga'' [PNum percentage]"

text \<open>
  The prefix column of the modifier table in section 6 of the specification, in the
  table's order.
\<close>

definition spec_modifier_table :: "string list" where
  "spec_modifier_table =
     [''rs'', ''c'', ''g'', ''q'', ''f'', ''blur'', ''sh'', ''bg'', ''pd'', ''dpr'', ''rot'',
      ''ar'', ''sm'', ''scp'', ''t'', ''pr'', ''mb'', ''cb'', ''fn'', ''wm'']"

section \<open>Facts about the store\<close>

text \<open>
  What join computes, written with list append and concat alone: the first element, then
  each later element preceded by the separator.
\<close>

lemma join_Cons: "join sep (x # xs) = x @ concat (map (\<lambda>u. sep @ u) xs)"
  by (induction xs arbitrary: x) simp_all

lemma join_unfolded:
  "join sep xs = (case xs of [] \<Rightarrow> [] | t # ts \<Rightarrow> t @ concat (map (\<lambda>u. sep @ u) ts))"
  by (induction sep xs rule: join.induct) simp_all

text \<open>
  A sequence of chain-method calls returns the object it was called on and changes one
  array only, the one the object refers to: it gains the encoders' tokens, in call order.
\<close>

lemma chain_calls_effect:
  "chain_calls encoder calls this h =
     (this, h\<lparr>arrays := (arrays h)(modifiers this :=
                 arrays h (modifiers this) @ map (\<lambda>(m, options). encoder m options) calls)\<rparr>)"
proof (induction calls arbitrary: h)
  case Nil
  show ?case by simp
next
  case (Cons c calls)
  obtain m options where c: "c = (m, options)" by (cases c)
  show ?case
    by (auto simp: c Cons.IH chain_method_def append_token_def push_def fun_eq_iff
             intro!: heap.equality)
qed

text \<open>
  The string that build returns depends on the store only through the contents of the
  chain's token array.
\<close>

lemma build_reads_tokens:
  "arrays h (modifiers this) = arrays h' (modifiers this') \<Longrightarrow>
   fst (build ef gs this options h) = fst (build ef gs this' options h')"
  by (simp add: build_def alloc_def push_def Let_def split: option.splits)

text \<open>
  build writes only to the copy it allocates: every array allocated before the call
  keeps its contents.
\<close>

lemma build_frame:
  "a < next_addr h \<Longrightarrow> arrays (snd (build ef gs this options h)) a = arrays h a"
  by (simp add: build_def alloc_def push_def Let_def split: option.splits)

lemma clone_effect:
  "clone this h =
     (\<lparr>modifiers = next_addr h\<rparr>,
      h\<lparr>arrays := (arrays h)(next_addr h := arrays h (modifiers this)),
        next_addr := Suc (next_addr h)\<rparr>)"
  by (simp add: clone_def new_ParamBuilder_def alloc_def)

lemmas eval_defs = build_def or_empty_def truthy_string_def truthy_bool_def alloc_def push_def
  clone_def new_ParamBuilder_def pb_def chain_method_def append_token_def

section \<open>The terminal operation build\<close>

text \<open>
  C1: for a non-empty path and a signature with key and salt, the part of the result
  after the prefix is the signature of the core path, a "/", and the core path, where the
  core path is the tokens followed by the file segment, joined by "/". The message given
  to generateSignature is the core path itself: neither the baseUrl nor the leading "/"
  is part of it.
\<close>

theorem build_signed:
  assumes "path opts = Some p" and "p \<noteq> []" and "signature opts = Some sg"
  shows "let corePath = join ''/'' (arrays h (modifiers this) @
                          (if plain opts = Some True then [''plain'', p] else [encodeFilePath p]))
         in fst (build encodeFilePath generateSignature this (Some opts) h)
            = (case baseUrl opts of None \<Rightarrow> ''/'' | Some b \<Rightarrow> if b = [] then ''/'' else b @ ''/'')
              @ generateSignature corePath (key sg) (salt sg) @ ''/'' @ corePath"
  using assms
  by (simp add: build_def or_empty_def truthy_string_def truthy_bool_def alloc_def push_def Let_def
           split: option.splits)

theorem build_signed_witness:
  "fst (build (\<lambda>_. ''L2EucG5n'') (\<lambda>m k s. ''sig('' @ k @ '','' @ s @ m @ '')'') \<lparr>modifiers = 0\<rparr>
         (Some \<lparr>path = Some ''/a.png'', baseUrl = Some ''https://cdn.example'', plain = None,
                signature = Some \<lparr>key = ''K'', salt = ''S''\<rparr>\<rparr>)
         \<lparr>arrays = (\<lambda>_. [])(0 := [''rs:fit:300:200'', ''q:80'']), next_addr = 1\<rparr>)
     = ''https://cdn.example/sig(K,Srs:fit:300:200/q:80/L2EucG5n)/rs:fit:300:200/q:80/L2EucG5n''"
  using build_signed [of "\<lparr>path = Some ''/a.png'', baseUrl = Some ''https://cdn.example'',
                           plain = None, signature = Some \<lparr>key = ''K'', salt = ''S''\<rparr>\<rparr>"
                         "''/a.png''" "\<lparr>key = ''K'', salt = ''S''\<rparr>"
                         "\<lparr>arrays = (\<lambda>_. [])(0 := [''rs:fit:300:200'', ''q:80'']), next_addr = 1\<rparr>"
                         "\<lparr>modifiers = 0\<rparr>" "\<lambda>_. ''L2EucG5n''"
                         "\<lambda>m k s. ''sig('' @ k @ '','' @ s @ m @ '')''"]
  by simp

text \<open>
  C2: without options, or with options whose path is absent or the empty string, build
  returns exactly the tokens joined by "/" (the empty string for an empty chain) whatever
  signature or baseUrl was supplied, and it changes nothing in the store.
\<close>

theorem build_bare:
  assumes "options = None \<or> (\<exists>opts. options = Some opts \<and> (path opts = None \<or> path opts = Some []))"
  shows "build encodeFilePath generateSignature this options h
           = (join ''/'' (arrays h (modifiers this)), h)
         \<and> (arrays h (modifiers this) = [] \<longrightarrow>
              fst (build encodeFilePath generateSignature this options h) = [])"
  using assms
  by (auto simp: build_def or_empty_def truthy_string_def)

theorem build_bare_witness:
  "build (\<lambda>p. p) (\<lambda>m k s. k @ s @ m) \<lparr>modifiers = 0\<rparr> None
       \<lparr>arrays = (\<lambda>_. []), next_addr = 1\<rparr>
     = ([], \<lparr>arrays = (\<lambda>_. []), next_addr = 1\<rparr>)
   \<and> build (\<lambda>p. p) (\<lambda>m k s. k @ s @ m) \<lparr>modifiers = 0\<rparr>
       (Some \<lparr>path = Some [], baseUrl = Some ''https://cdn.example'', plain = Some True,
              signature = Some \<lparr>key = ''k'', salt = ''s''\<rparr>\<rparr>)
       \<lparr>arrays = (\<lambda>_. [])(0 := [''rs:fit:300:200'', ''q:80'']), next_addr = 1\<rparr>
     = (''rs:fit:300:200/q:80'',
        \<lparr>arrays = (\<lambda>_. [])(0 := [''rs:fit:300:200'', ''q:80'']), next_addr = 1\<rparr>)"
  using build_bare [of None "\<lambda>p. p" "\<lambda>m k s. k @ s @ m" "\<lparr>modifiers = 0\<rparr>"
                       "\<lparr>arrays = (\<lambda>_. []), next_addr = 1\<rparr>"]
        build_bare [of "Some \<lparr>path = Some [], baseUrl = Some ''https://cdn.example'',
                             plain = Some True, signature = Some \<lparr>key = ''k'', salt = ''s''\<rparr>\<rparr>"
                       "\<lambda>p. p" "\<lambda>m k s. k @ s @ m" "\<lparr>modifiers = 0\<rparr>"
                       "\<lparr>arrays = (\<lambda>_. [])(0 := [''rs:fit:300:200'', ''q:80'']), next_addr = 1\<rparr>"]
  by simp

text \<open>
  C3: for a non-empty path, the file segment pushed after the tokens is the two components
  "plain" and the raw path, unchanged, when plain is true, and the one component
  encodeFilePath(path) otherwise. The array read here is the copy that build allocated
  and pushed to; the returned string ends with that array joined by "/".
\<close>

theorem build_file_segment:
  assumes "path opts = Some p" and "p \<noteq> []"
  shows "(plain opts = Some True \<longrightarrow>
            arrays (snd (build encodeFilePath generateSignature this (Some opts) h)) (next_addr h)
              = arrays h (modifiers this) @ [''plain'', p]
            \<and> (\<exists>pre. fst (build encodeFilePath generateSignature this (Some opts) h)
                  = pre @ join ''/'' (arrays h (modifiers this) @ [''plain'', p])))
       \<and> (plain opts \<noteq> Some True \<longrightarrow>
            arrays (snd (build encodeFilePath generateSignature this (Some opts) h)) (next_addr h)
              = arrays h (modifiers this) @ [encodeFilePath p]
            \<and> (\<exists>pre. fst (build encodeFilePath generateSignature this (Some opts) h)
                  = pre @ join ''/'' (arrays h (modifiers this) @ [encodeFilePath p])))"
proof -
  let ?seg = "if plain opts = Some True then [''plain'', p] else [encodeFilePath p]"
  let ?core = "join ''/'' (arrays h (modifiers this) @ ?seg)"
  let ?pre = "(case baseUrl opts of None \<Rightarrow> ''/'' | Some b \<Rightarrow> if b = [] then ''/'' else b @ ''/'')
              @ (case signature opts of None \<Rightarrow> []
                 | Some sg \<Rightarrow> generateSignature ?core (key sg) (salt sg) @ ''/'')"
  have arr: "arrays (snd (build encodeFilePath generateSignature this (Some opts) h)) (next_addr h)
               = arrays h (modifiers this) @ ?seg"
    using assms
    by (simp add: build_def or_empty_def truthy_string_def truthy_bool_def alloc_def push_def
          Let_def split: option.splits)
  have str: "fst (build encodeFilePath generateSignature this (Some opts) h) = ?pre @ ?core"
    using assms
    by (simp add: build_def or_empty_def truthy_string_def truthy_bool_def alloc_def push_def
          Let_def split: option.splits)
  show ?thesis
  proof (cases "plain opts = Some True")
    case True
    with arr str show ?thesis by auto
  next
    case False
    with arr str show ?thesis by auto
  qed
qed

theorem build_file_segment_witness:
  "arrays (snd (build (\<lambda>_. ''L2EucG5n'') (\<lambda>m k s. ''sig'') \<lparr>modifiers = 0\<rparr>
                  (Some \<lparr>path = Some ''/a.png'', baseUrl = None, plain = Some True,
                         signature = None\<rparr>)
                  \<lparr>arrays = (\<lambda>_. [])(0 := [''rs:fit:300:200'', ''q:80'']), next_addr = 1\<rparr>)) 1
     = [''rs:fit:300:200'', ''q:80'', ''plain'', ''/a.png'']
   \<and> arrays (snd (build (\<lambda>_. ''L2EucG5n'') (\<lambda>m k s. ''sig'') \<lparr>modifiers = 0\<rparr>
                  (Some \<lparr>path = Some ''/a.png'', baseUrl = None, plain = Some False,
                         signature = None\<rparr>)
                  \<lparr>arrays = (\<lambda>_. [])(0 := [''rs:fit:300:200'', ''q:80'']), next_addr = 1\<rparr>)) 1
     = [''rs:fit:300:200'', ''q:80'', ''L2EucG5n'']"
  using build_file_segment [of "\<lparr>path = Some ''/a.png'', baseUrl = None, plain = Some True,
                                 signature = None\<rparr>" "''/a.png''"
                               "\<lambda>_. ''L2EucG5n''" "\<lambda>m k s. ''sig''" "\<lparr>modifiers = 0\<rparr>"
                               "\<lparr>arrays = (\<lambda>_. [])(0 := [''rs:fit:300:200'', ''q:80'']), next_addr = 1\<rparr>"]
        build_file_segment [of "\<lparr>path = Some ''/a.png'', baseUrl = None, plain = Some False,
                                 signature = None\<rparr>" "''/a.png''"
                               "\<lambda>_. ''L2EucG5n''" "\<lambda>m k s. ''sig''" "\<lparr>modifiers = 0\<rparr>"
                               "\<lparr>arrays = (\<lambda>_. [])(0 := [''rs:fit:300:200'', ''q:80'']), next_addr = 1\<rparr>"]
  by simp

section \<open>Chain methods\<close>

text \<open>
  C4: after any sequence of chain-method calls, the chain's array is what it was before
  followed by one token for each call, in call order, with nothing reordered or removed,
  and build without options returns these tokens joined by "/": the first token, then
  each later token preceded by "/", in call order. This holds for every sequence, so for
  every permutation of one, and a kind that occurs twice contributes two tokens.
\<close>

theorem token_order:
  "fst (chain_calls encoder calls this h) = this
   \<and> arrays (snd (chain_calls encoder calls this h)) (modifiers this)
       = arrays h (modifiers this) @ map (\<lambda>(m, options). encoder m options) calls
   \<and> length (arrays (snd (chain_calls encoder calls this h)) (modifiers this))
       = length (arrays h (modifiers this)) + length calls
   \<and> fst (build encodeFilePath generateSignature (fst (chain_calls encoder calls this h)) None
            (snd (chain_calls encoder calls this h)))
       = join ''/'' (arrays h (modifiers this) @ map (\<lambda>(m, options). encoder m options) calls)
   \<and> fst (build encodeFilePath generateSignature (fst (pb h)) None
            (snd (chain_calls encoder calls (fst (pb h)) (snd (pb h)))))
       = join ''/'' (map (\<lambda>(m, options). encoder m options) calls)
   \<and> fst (build encodeFilePath generateSignature (fst (chain_calls encoder calls this h)) None
            (snd (chain_calls encoder calls this h)))
       = (case arrays h (modifiers this) @ map (\<lambda>(m, options). encoder m options) calls of
            [] \<Rightarrow> []
          | t # ts \<Rightarrow> t @ concat (map (\<lambda>u. ''/'' @ u) ts))
   \<and> fst (build encodeFilePath generateSignature (fst (pb h)) None
            (snd (chain_calls encoder ((m0, options0) # calls) (fst (pb h)) (snd (pb h)))))
       = encoder m0 options0
         @ concat (map (\<lambda>(m, options). ''/'' @ encoder m options) calls)"
proof -
  let ?toks = "map (\<lambda>(m, options). encoder m options) calls"
  have bare: "\<And>t g. fst (build encodeFilePath generateSignature t None g)
                        = join ''/'' (arrays g (modifiers t))"
    by (simp add: build_def or_empty_def truthy_string_def)
  have obj: "fst (chain_calls encoder calls this h) = this"
    by (simp add: chain_calls_effect)
  have arr: "arrays (snd (chain_calls encoder calls this h)) (modifiers this)
               = arrays h (modifiers this) @ ?toks"
    by (simp add: chain_calls_effect)
  have len: "length (arrays (snd (chain_calls encoder calls this h)) (modifiers this))
               = length (arrays h (modifiers this)) + length calls"
    by (simp add: arr)
  have out: "fst (build encodeFilePath generateSignature (fst (chain_calls encoder calls this h))
                    None (snd (chain_calls encoder calls this h)))
               = join ''/'' (arrays h (modifiers this) @ ?toks)"
    by (simp add: bare obj arr)
  have fresh: "fst (build encodeFilePath generateSignature (fst (pb h)) None
                      (snd (chain_calls encoder calls (fst (pb h)) (snd (pb h)))))
                 = join ''/'' ?toks"
    by (simp add: bare chain_calls_effect pb_def new_ParamBuilder_def alloc_def)
  have out': "fst (build encodeFilePath generateSignature (fst (chain_calls encoder calls this h))
                     None (snd (chain_calls encoder calls this h)))
                = (case arrays h (modifiers this) @ ?toks of
                     [] \<Rightarrow> []
                   | t # ts \<Rightarrow> t @ concat (map (\<lambda>u. ''/'' @ u) ts))"
    by (simp only: out join_unfolded [of "''/''" "arrays h (modifiers this) @ ?toks"])
  have fresh': "fst (build encodeFilePath generateSignature (fst (pb h)) None
               (snd (chain_calls encoder ((m0, options0) # calls) (fst (pb h)) (snd (pb h)))))
          = encoder m0 options0 @ concat (map (\<lambda>(m, options). ''/'' @ encoder m options) calls)"
    by (simp add: bare chain_calls_effect chain_method_def append_token_def push_def pb_def
          new_ParamBuilder_def alloc_def join_Cons comp_def case_prod_unfold)
  from obj arr len out fresh out' fresh' show ?thesis by (intro conjI)
qed

theorem token_order_witness:
  "fst (build (\<lambda>_. ''L2EucG5n'') (\<lambda>m k s. ''sig'') (fst (pb \<lparr>arrays = (\<lambda>_. []), next_addr = 0\<rparr>)) None
         (snd (chain_calls (\<lambda>m token. token)
                 [(Quality, ''q:80''), (Resize, ''rs:fit:300:200''), (Blur, ''blur:5''),
                  (Quality, ''q:80'')]
                 (fst (pb \<lparr>arrays = (\<lambda>_. []), next_addr = 0\<rparr>))
                 (snd (pb \<lparr>arrays = (\<lambda>_. []), next_addr = 0\<rparr>)))))
     = ''q:80/rs:fit:300:200/blur:5/q:80''
   \<and> fst (build (\<lambda>_. ''L2EucG5n'') (\<lambda>m k s. ''sig'') \<lparr>modifiers = 0\<rparr> None
         (snd (chain_calls (\<lambda>m token. token)
                 [(Blur, ''blur:5''), (AutoRotate, ''ar:1'')] \<lparr>modifiers = 0\<rparr>
                 \<lparr>arrays = (\<lambda>_. [])(0 := [''rs:fit:300:200'', ''q:80'']), next_addr = 1\<rparr>)))
     = ''rs:fit:300:200/q:80/blur:5/ar:1''
   \<and> arrays (snd (chain_calls (\<lambda>m token. token)
                 [(Blur, ''blur:5''), (AutoRotate, ''ar:1'')] \<lparr>modifiers = 0\<rparr>
                 \<lparr>arrays = (\<lambda>_. [])(0 := [''rs:fit:300:200'', ''q:80'']), next_addr = 1\<rparr>)) 0
     = [''rs:fit:300:200'', ''q:80'', ''blur:5'', ''ar:1'']"
  using token_order [of "\<lambda>m token. token"
          "[(Resize, ''rs:fit:300:200''), (Blur, ''blur:5''), (Quality, ''q:80'')]"
          "\<lparr>modifiers = 0\<rparr>" "\<lparr>arrays = (\<lambda>_. []), next_addr = 0\<rparr>"
          "\<lambda>_. ''L2EucG5n''" "\<lambda>m k s. ''sig''" Quality "''q:80''"]
        token_order [of "\<lambda>m token. token" "[(Blur, ''blur:5''), (AutoRotate, ''ar:1'')]"
          "\<lparr>modifiers = 0\<rparr>"
          "\<lparr>arrays = (\<lambda>_. [])(0 := [''rs:fit:300:200'', ''q:80'']), next_addr = 1\<rparr>"
          "\<lambda>_. ''L2EucG5n''" "\<lambda>m k s. ''sig''" Blur "''blur:5''"]
  by (simp add: eval_defs)

text \<open>
  A fluent chain that the type checker accepts runs exactly the chain-method calls.
\<close>

lemma invoke_all_runs_chain_calls:
  "invoke_all encoder calls hnd h = Some (hnd', h') \<Longrightarrow>
   (target hnd', h') = chain_calls encoder calls (target hnd) h"
proof (induction calls arbitrary: hnd h)
  case Nil
  then show ?case by simp
next
  case (Cons c calls)
  obtain m options where c: "c = (m, options)" by (cases c)
  from Cons.prems obtain hnd1 h1 where
    step: "invoke encoder m options hnd h = Some (hnd1, h1)" and
    rest: "invoke_all encoder calls hnd1 h1 = Some (hnd', h')"
    by (auto simp: c split: option.splits)
  from step have "chain_method encoder m options (target hnd) h = (target hnd1, h1)"
    by (auto simp: invoke_def split: if_splits prod.splits)
  with Cons.IH [OF rest] show ?case by (simp add: c)
qed

lemma omitted_self: "m \<noteq> Filename \<Longrightarrow> omitted m = m"
  by (cases m) simp_all

text \<open>
  In a fluent chain that the type checker accepts, every method other than filename
  occurs at most once.
\<close>

lemma invoke_all_single_use:
  assumes "invoke_all encoder calls hnd h = Some r" and "m \<noteq> Filename"
  shows "(m \<notin> capabilities hnd \<longrightarrow> m \<notin> fst ` set calls) \<and> count_list (map fst calls) m \<le> 1"
  using assms(1)
proof (induction calls arbitrary: hnd h)
  case Nil
  then show ?case by simp
next
  case (Cons c calls)
  obtain m' options where c: "c = (m', options)" by (cases c)
  from Cons.prems obtain hnd1 h1 where
    step: "invoke encoder m' options hnd h = Some (hnd1, h1)" and
    rest: "invoke_all encoder calls hnd1 h1 = Some r"
    by (auto simp: c split: option.splits)
  from step have has: "m' \<in> capabilities hnd"
    and caps: "capabilities hnd1 = capabilities hnd - {omitted m'}"
    by (auto simp: invoke_def split: if_splits prod.splits)
  note IH = Cons.IH [OF rest]
  show ?case
  proof (cases "m' = m")
    case True
    with caps assms(2) have "m \<notin> capabilities hnd1" by (simp add: omitted_self)
    with IH have "m \<notin> fst ` set calls" by simp
    then have "count_list (map fst calls) m = 0" by (simp add: count_list_0_iff)
    with True has show ?thesis by (simp add: c)
  next
    case False
    with IH caps show ?thesis by (auto simp: c)
  qed
qed

text \<open>
  C5: the claim is that no modifier-kind method can be invoked twice on the handles that
  the chain methods return. The declared return type of filename omits dpr, not filename,
  so the chain \<^verbatim>\<open>pb().filename(a).filename(b)\<close> is accepted: the handle it yields still
  has filename (and has lost dpr), and the chain holds two filename tokens.
\<close>

theorem filename_twice:
  "case pb_handle h of (hnd, h0) \<Rightarrow>
     invoke_all encoder [(Filename, a), (Filename, b)] hnd h0
       = Some (\<lparr>target = target hnd, capabilities = all_methods - {Dpr}\<rparr>,
               snd (chain_calls encoder [(Filename, a), (Filename, b)] (target hnd) h0))
     \<and> fst (build encodeFilePath generateSignature (target hnd) None
              (snd (chain_calls encoder [(Filename, a), (Filename, b)] (target hnd) h0)))
         = encoder Filename a @ ''/'' @ encoder Filename b"
  by (auto simp: pb_handle_def pb_def new_ParamBuilder_def alloc_def invoke_def all_methods_def
        chain_method_def append_token_def push_def build_def or_empty_def truthy_string_def)

section \<open>Aliasing: clone and build\<close>

text \<open>
  C6: clone returns a chain with an array of its own, holding the tokens of the original
  at the time of the call. Calls of chain methods on the clone do not change what build
  returns for the original, and calls on the original after cloning do not change what
  build returns for the clone.
\<close>

theorem clone_independent:
  assumes "modifiers this < next_addr h"
  shows "case clone this h of (c, h1) \<Rightarrow>
           modifiers c \<noteq> modifiers this
         \<and> arrays h1 (modifiers c) = arrays h (modifiers this)
         \<and> fst (build encodeFilePath generateSignature this options
                  (snd (chain_calls encoder calls c h1)))
             = fst (build encodeFilePath generateSignature this options h)
         \<and> fst (build encodeFilePath generateSignature c options
                  (snd (chain_calls encoder calls this h1)))
             = fst (build encodeFilePath generateSignature c options h1)"
proof -
  let ?c = "\<lparr>modifiers = next_addr h\<rparr>"
  let ?h1 = "h\<lparr>arrays := (arrays h)(next_addr h := arrays h (modifiers this)),
               next_addr := Suc (next_addr h)\<rparr>"
  from assms have ne: "next_addr h \<noteq> modifiers this" by simp
  have orig: "arrays (snd (chain_calls encoder calls ?c ?h1)) (modifiers this)
                = arrays h (modifiers this)"
    using ne by (simp add: chain_calls_effect)
  have copy: "arrays (snd (chain_calls encoder calls this ?h1)) (modifiers ?c)
                = arrays ?h1 (modifiers ?c)"
    using ne by (simp add: chain_calls_effect)
  show ?thesis
    using ne build_reads_tokens [OF orig] build_reads_tokens [OF copy]
    by (simp add: clone_effect)
qed

theorem clone_independent_witness:
  "(0::nat) < 1
   \<and> (case clone \<lparr>modifiers = 0\<rparr>
              \<lparr>arrays = (\<lambda>_. [])(0 := [''rs:fit:300:200'', ''q:80'']), next_addr = 1\<rparr> of
        (c, h1) \<Rightarrow>
          modifiers c = 1
        \<and> arrays h1 1 = [''rs:fit:300:200'', ''q:80'']
        \<and> fst (build (\<lambda>_. ''L2EucG5n'') (\<lambda>m k s. ''sig'') \<lparr>modifiers = 0\<rparr> None
                 (snd (chain_calls (\<lambda>m token. token) [(Blur, ''blur:5'')] c h1)))
            = ''rs:fit:300:200/q:80''
        \<and> fst (build (\<lambda>_. ''L2EucG5n'') (\<lambda>m k s. ''sig'') c None
                 (snd (chain_calls (\<lambda>m token. token) [(Blur, ''blur:5'')] \<lparr>modifiers = 0\<rparr> h1)))
            = ''rs:fit:300:200/q:80'')"
  using clone_independent [of "\<lparr>modifiers = 0\<rparr>"
          "\<lparr>arrays = (\<lambda>_. [])(0 := [''rs:fit:300:200'', ''q:80'']), next_addr = 1\<rparr>"
          "\<lambda>_. ''L2EucG5n''" "\<lambda>m k s. ''sig''" None "\<lambda>m token. token" "[(Blur, ''blur:5'')]"]
  by (simp add: eval_defs)

text \<open>
  C7: build leaves the chain's array, and every other array allocated before the call, as
  it was. So a second build returns what it would have returned without the first, and
  a build after further chain-method calls reads the tokens the chain holds then.
\<close>

theorem build_pure:
  assumes "modifiers this < next_addr h" and "a < next_addr h"
  shows "arrays (snd (build encodeFilePath generateSignature this options h)) (modifiers this)
           = arrays h (modifiers this)
       \<and> arrays (snd (build encodeFilePath generateSignature this options h)) a = arrays h a
       \<and> fst (build encodeFilePath generateSignature this options'
                (snd (build encodeFilePath generateSignature this options h)))
           = fst (build encodeFilePath generateSignature this options' h)
       \<and> fst (build encodeFilePath generateSignature this options'
                (snd (chain_calls encoder calls this
                        (snd (build encodeFilePath generateSignature this options h)))))
           = fst (build encodeFilePath generateSignature this options'
                    (snd (chain_calls encoder calls this h)))"
proof -
  let ?h' = "snd (build encodeFilePath generateSignature this options h)"
  have same: "arrays ?h' (modifiers this) = arrays h (modifiers this)"
    using assms(1) by (rule build_frame)
  have other: "arrays ?h' a = arrays h a"
    using assms(2) by (rule build_frame)
  have again: "fst (build encodeFilePath generateSignature this options' ?h')
                 = fst (build encodeFilePath generateSignature this options' h)"
    using same by (rule build_reads_tokens)
  have "arrays (snd (chain_calls encoder calls this ?h')) (modifiers this)
          = arrays (snd (chain_calls encoder calls this h)) (modifiers this)"
    using same by (simp add: chain_calls_effect)
  then have later: "fst (build encodeFilePath generateSignature this options'
                           (snd (chain_calls encoder calls this ?h')))
                      = fst (build encodeFilePath generateSignature this options'
                               (snd (chain_calls encoder calls this h)))"
    by (rule build_reads_tokens)
  from same other again later show ?thesis by simp
qed

theorem build_pure_witness:
  "(0::nat) < 1
   \<and> arrays (snd (build (\<lambda>_. ''L2EucG5n'') (\<lambda>m k s. ''sig'') \<lparr>modifiers = 0\<rparr>
                    (Some \<lparr>path = Some ''/a.png'', baseUrl = None, plain = Some True,
                           signature = None\<rparr>)
                    \<lparr>arrays = (\<lambda>_. [])(0 := [''rs:fit:300:200'', ''q:80'']), next_addr = 1\<rparr>)) 0
       = [''rs:fit:300:200'', ''q:80'']
   \<and> fst (build (\<lambda>_. ''L2EucG5n'') (\<lambda>m k s. ''sig'') \<lparr>modifiers = 0\<rparr> None
            (snd (chain_calls (\<lambda>m token. token) [(Blur, ''blur:5'')] \<lparr>modifiers = 0\<rparr>
               (snd (build (\<lambda>_. ''L2EucG5n'') (\<lambda>m k s. ''sig'') \<lparr>modifiers = 0\<rparr>
                    (Some \<lparr>path = Some ''/a.png'', baseUrl = None, plain = Some True,
                           signature = None\<rparr>)
                    \<lparr>arrays = (\<lambda>_. [])(0 := [''rs:fit:300:200'', ''q:80'']), next_addr = 1\<rparr>)))))
       = ''rs:fit:300:200/q:80/blur:5''"
  using build_pure [of "\<lparr>modifiers = 0\<rparr>"
          "\<lparr>arrays = (\<lambda>_. [])(0 := [''rs:fit:300:200'', ''q:80'']), next_addr = 1\<rparr>" 0
          "\<lambda>_. ''L2EucG5n''" "\<lambda>m k s. ''sig''"
          "Some \<lparr>path = Some ''/a.png'', baseUrl = None, plain = Some True, signature = None\<rparr>"
          None "\<lambda>m token. token" "[(Blur, ''blur:5'')]"]
  by (simp add: eval_defs)

section \<open>The prefix of the result\<close>

text \<open>
  C8: for a non-empty path, the result is baseUrl, one "/" and the final path when
  baseUrl is present and not empty, and "/" followed by the final path when baseUrl is
  absent or empty. The final path is the core path, preceded by the signature and a "/"
  when a signature is asked for.
\<close>

theorem build_prefix:
  assumes "path opts = Some p" and "p \<noteq> []"
  shows "let corePath = join ''/'' (arrays h (modifiers this) @
                          (if plain opts = Some True then [''plain'', p] else [encodeFilePath p]));
             finalPath = (case signature opts of
                            None \<Rightarrow> corePath
                          | Some sg \<Rightarrow> generateSignature corePath (key sg) (salt sg) @ ''/'' @ corePath)
         in (\<forall>b. baseUrl opts = Some b \<and> b \<noteq> [] \<longrightarrow>
               fst (build encodeFilePath generateSignature this (Some opts) h) = b @ ''/'' @ finalPath)
          \<and> (baseUrl opts = None \<or> baseUrl opts = Some [] \<longrightarrow>
               fst (build encodeFilePath generateSignature this (Some opts) h) = ''/'' @ finalPath)"
  using assms
  by (auto simp: build_def or_empty_def truthy_string_def truthy_bool_def alloc_def push_def Let_def
           split: option.splits)

theorem build_prefix_witness:
  "fst (build (\<lambda>_. ''L2EucG5n'') (\<lambda>m k s. ''sig'') \<lparr>modifiers = 0\<rparr>
         (Some \<lparr>path = Some ''/a.png'', baseUrl = Some ''https://cdn.example'', plain = None,
                signature = None\<rparr>)
         \<lparr>arrays = (\<lambda>_. [])(0 := [''rs:fit:300:200'', ''q:80'']), next_addr = 1\<rparr>)
     = ''https://cdn.example/rs:fit:300:200/q:80/L2EucG5n''
   \<and> fst (build (\<lambda>_. ''L2EucG5n'') (\<lambda>m k s. ''sig'') \<lparr>modifiers = 0\<rparr>
         (Some \<lparr>path = Some ''/a.png'', baseUrl = Some [], plain = None, signature = None\<rparr>)
         \<lparr>arrays = (\<lambda>_. [])(0 := [''rs:fit:300:200'', ''q:80'']), next_addr = 1\<rparr>)
     = ''/rs:fit:300:200/q:80/L2EucG5n''"
  using build_prefix [of "\<lparr>path = Some ''/a.png'', baseUrl = Some ''https://cdn.example'',
                           plain = None, signature = None\<rparr>" "''/a.png''"
                         "\<lparr>arrays = (\<lambda>_. [])(0 := [''rs:fit:300:200'', ''q:80'']), next_addr = 1\<rparr>"
                         "\<lparr>modifiers = 0\<rparr>" "\<lambda>_. ''L2EucG5n''" "\<lambda>m k s. ''sig''"]
        build_prefix [of "\<lparr>path = Some ''/a.png'', baseUrl = Some [], plain = None,
                           signature = None\<rparr>" "''/a.png''"
                         "\<lparr>arrays = (\<lambda>_. [])(0 := [''rs:fit:300:200'', ''q:80'']), next_addr = 1\<rparr>"
                         "\<lparr>modifiers = 0\<rparr>" "\<lambda>_. ''L2EucG5n''" "\<lambda>m k s. ''sig''"]
  by simp

section \<open>The encoders enlarge and backgroundAlpha\<close>

text \<open>
  C9: enlarge() is the stringifier applied to the prefix "el" and the single value true,
  which is the token "el:1"; the prefix "el" is not in the specification's modifier
  table.
\<close>

theorem enlarge_token:
  "enlarge num = stringifyOptions num ''el'' [PBool True] \<and> enlarge num = ''el:1''
   \<and> ''el'' \<notin> set spec_modifier_table"
  by (simp add: enlarge_def stringifyOptions_def spec_modifier_table_def)

text \<open>
  C10: for every number p, backgroundAlpha(p) is the stringifier applied to the prefix
  "bga" and the single value p, which is "bga:" followed by the rendering of p. The
  function has no other branch: no range check, no error. The prefix "bga" is not in the
  specification's modifier table.
\<close>

theorem backgroundAlpha_token:
  "backgroundAlpha num p = stringifyOptions num ''bga'' [PNum p]
   \<and> backgroundAlpha num p = ''bga:'' @ num p
   \<and> ''bga'' \<notin> set spec_modifier_table"
  by (simp add: backgroundAlpha_def stringifyOptions_def spec_modifier_table_def)

end
